theory Spec2Isabelle
  imports Complex_Main
begin

section \<open>Python values and exceptions\<close>

text \<open>
  The values that \<^verbatim>\<open>json.loads\<close> and the token library hand to the code: JSON data as
  Python objects. A dict keeps its entries as an association list whose keys are strings
  (JSON object keys always are); \<open>map_of\<close> is the lookup. Text is \<open>string\<close>.
  Numbers with a fraction or an exponent are kept as an exact rational, or as one of the
  three special floats that \<^verbatim>\<open>json.loads\<close> accepts.
\<close>

datatype pyfloat = Finite rat | PosInf | NegInf | NaN

datatype pyval =
    PNone
  | PBool bool
  | PInt int
  | PFloat pyfloat
  | PStr string
  | PList "pyval list"
  | PDict "(string \<times> pyval) list"

type_synonym dict = "(string \<times> pyval) list"

text \<open>
  \<^verbatim>\<open>class AuthError(Exception)\<close>: \<^verbatim>\<open>self.error\<close> is a dict literal with the two keys
  \<^verbatim>\<open>code\<close> and \<^verbatim>\<open>description\<close> at every place that raises it, \<^verbatim>\<open>self.status_code\<close>
  a number.
\<close>

record error_dict =
  code :: string
  description :: string

record AuthError =
  error :: error_dict
  status_code :: nat

text \<open>
  Exceptions that come out of a library (the token library, \<^verbatim>\<open>urlopen\<close>,
  \<^verbatim>\<open>json.loads\<close>, the persistence layer). \<^verbatim>\<open>ExpiredSignatureError\<close> and
  \<^verbatim>\<open>JWTClaimsError\<close> are subclasses of \<^verbatim>\<open>JWTError\<close>; each carries its message.
  \<open>OtherException\<close> stands for any other class, by name.
\<close>

datatype lib_exn =
    JWTError string
  | ExpiredSignatureError string
  | JWTClaimsError string
  | OtherException string

fun is_JWTError :: "lib_exn \<Rightarrow> bool" where
  "is_JWTError (JWTError _) = True"
| "is_JWTError (ExpiredSignatureError _) = True"
| "is_JWTError (JWTClaimsError _) = True"
| "is_JWTError (OtherException _) = False"

fun str_of_exn :: "lib_exn \<Rightarrow> string" where
  "str_of_exn (JWTError m) = m"
| "str_of_exn (ExpiredSignatureError m) = m"
| "str_of_exn (JWTClaimsError m) = m"
| "str_of_exn (OtherException m) = m"

text \<open>
  Everything the code can raise: its own \<^verbatim>\<open>AuthError\<close>, the \<^verbatim>\<open>HTTPException\<close> of
  \<^verbatim>\<open>abort(code, description=...)\<close>, the interpreter's own errors, and library exceptions
  passing through.
\<close>

datatype exn =
    AuthErr AuthError
  | HTTPException nat string
  | IndexError
  | KeyError string
  | TypeError
  | AttributeError
  | Lib lib_exn

definition raise_AuthError :: "string \<Rightarrow> string \<Rightarrow> nat \<Rightarrow> exn + 'a" where
  "raise_AuthError c d s =
     Inl (AuthErr \<lparr>error = \<lparr>code = c, description = d\<rparr>, status_code = s\<rparr>)"

section \<open>Strings: \<^verbatim>\<open>str.split()\<close> and \<^verbatim>\<open>str.lower()\<close>\<close>

text \<open>
  A header value reaches the application as a string of code points 0 to 255, which is
  what \<open>char\<close> is. Among these, \<^verbatim>\<open>str.isspace\<close> holds for 9 to 13, 28 to 32, 133
  and 160.
\<close>

definition isspace :: "char \<Rightarrow> bool" where
  "isspace c = (let n = (of_char c :: nat) in
     (9 \<le> n \<and> n \<le> 13) \<or> (28 \<le> n \<and> n \<le> 32) \<or> n = 133 \<or> n = 160)"

text \<open>
  \<^verbatim>\<open>s.split()\<close> with no argument: the maximal runs of non-whitespace characters, in
  order. \<open>w\<close> is the run being read, reversed.
\<close>

fun split_acc :: "string \<Rightarrow> string \<Rightarrow> string list" where
  "split_acc w [] = (if w = [] then [] else [rev w])"
| "split_acc w (c # cs) =
     (if isspace c then (if w = [] then split_acc [] cs else rev w # split_acc [] cs)
      else split_acc (c # w) cs)"

definition split :: "string \<Rightarrow> string list" where
  "split s = split_acc [] s"

text \<open>
  \<^verbatim>\<open>str.lower()\<close> on code points 0 to 255: A to Z, and 192 to 222 apart from 215 (the
  multiplication sign), move up by 32.
\<close>

definition lower_char :: "char \<Rightarrow> char" where
  "lower_char c = (let n = (of_char c :: nat) in
     if (65 \<le> n \<and> n \<le> 90) \<or> (192 \<le> n \<and> n \<le> 222 \<and> n \<noteq> 215)
     then char_of (n + 32) else c)"

definition lower :: "string \<Rightarrow> string" where
  "lower s = map lower_char s"

section \<open>Operations on Python values\<close>

text \<open>
  \<^verbatim>\<open>==\<close>. Booleans, integers and floats compare by numeric value (\<^verbatim>\<open>True == 1\<close>,
  \<^verbatim>\<open>1 == 1.0\<close>), a NaN equals nothing; lists compare elementwise; dicts are equal when
  they have the same keys with equal values (the association list of a dict has distinct
  keys).
\<close>

fun num_val :: "pyval \<Rightarrow> pyfloat option" where
  "num_val (PBool b) = Some (Finite (if b then 1 else 0))"
| "num_val (PInt n) = Some (Finite (of_int n))"
| "num_val (PFloat f) = Some f"
| "num_val _ = None"

fun float_eq :: "pyfloat \<Rightarrow> pyfloat \<Rightarrow> bool" where
  "float_eq (Finite a) (Finite b) = (a = b)"
| "float_eq PosInf PosInf = True"
| "float_eq NegInf NegInf = True"
| "float_eq _ _ = False"

fun py_eq :: "pyval \<Rightarrow> pyval \<Rightarrow> bool"
  and py_eq_list :: "pyval list \<Rightarrow> pyval list \<Rightarrow> bool"
  and py_eq_items :: "dict \<Rightarrow> dict \<Rightarrow> bool" where
  "py_eq PNone y = (y = PNone)"
| "py_eq (PBool b) y =
     (case num_val y of None \<Rightarrow> False | Some g \<Rightarrow> float_eq (Finite (if b then 1 else 0)) g)"
| "py_eq (PInt n) y =
     (case num_val y of None \<Rightarrow> False | Some g \<Rightarrow> float_eq (Finite (of_int n)) g)"
| "py_eq (PFloat f) y = (case num_val y of None \<Rightarrow> False | Some g \<Rightarrow> float_eq f g)"
| "py_eq (PStr s) y = (y = PStr s)"
| "py_eq (PList xs) y = (case y of PList ys \<Rightarrow> py_eq_list xs ys | _ \<Rightarrow> False)"
| "py_eq (PDict a) y =
     (case y of
        PDict b \<Rightarrow> py_eq_items a b \<and> list_all (\<lambda>k. map_of a k \<noteq> None) (map fst b)
      | _ \<Rightarrow> False)"
| "py_eq_list [] ys = (ys = [])"
| "py_eq_list (x # xs) ys =
     (case ys of [] \<Rightarrow> False | y # ys' \<Rightarrow> py_eq x y \<and> py_eq_list xs ys')"
| "py_eq_items [] b = True"
| "py_eq_items (kv # a) b =
     ((case map_of b (fst kv) of None \<Rightarrow> False | Some w \<Rightarrow> py_eq (snd kv) w)
      \<and> py_eq_items a b)"

text \<open>
  \<^verbatim>\<open>obj[k]\<close> with a string \<open>k\<close>: a dict gives the value or raises \<^verbatim>\<open>KeyError\<close>;
  a list or a string wants an integer index, and nothing else can be subscripted.
\<close>

fun getitem :: "pyval \<Rightarrow> string \<Rightarrow> exn + pyval" where
  "getitem (PDict d) k = (case map_of d k of None \<Rightarrow> Inl (KeyError k) | Some v \<Rightarrow> Inr v)"
| "getitem _ k = Inl TypeError"

text \<open>
  \<^verbatim>\<open>for x in obj\<close>: a list gives its elements, a dict its keys, a string its characters
  as strings of length one; nothing else can be iterated.
\<close>

fun iter :: "pyval \<Rightarrow> exn + pyval list" where
  "iter (PList xs) = Inr xs"
| "iter (PDict d) = Inr (map (\<lambda>kv. PStr (fst kv)) d)"
| "iter (PStr s) = Inr (map (\<lambda>c. PStr [c]) s)"
| "iter _ = Inl TypeError"

text \<open>
  \<^verbatim>\<open>s in obj\<close> for a string \<open>s\<close>: membership by \<^verbatim>\<open>==\<close> in a list, among the keys in a
  dict, as a substring in a string; \<^verbatim>\<open>TypeError\<close> otherwise.
\<close>

fun substring :: "string \<Rightarrow> string \<Rightarrow> bool" where
  "substring p [] = (p = [])"
| "substring p (c # cs) = (take (length p) (c # cs) = p \<or> substring p cs)"

fun contains :: "pyval \<Rightarrow> string \<Rightarrow> exn + bool" where
  "contains (PList xs) s = Inr (list_ex (\<lambda>e. py_eq e (PStr s)) xs)"
| "contains (PDict d) s = Inr (map_of d s \<noteq> None)"
| "contains (PStr t) s = Inr (substring s t)"
| "contains _ s = Inl TypeError"

text \<open>Sequencing with exceptions: the first \<open>Inl\<close> is what leaves the function.\<close>

definition bind :: "exn + 'a \<Rightarrow> ('a \<Rightarrow> exn + 'b) \<Rightarrow> exn + 'b" where
  "bind m f = (case m of Inl x \<Rightarrow> Inl x | Inr v \<Rightarrow> f v)"

section \<open>The request and the token extractor\<close>

text \<open>
  What the code reads of the request: \<^verbatim>\<open>request.headers.get("Authorization", None)\<close>
  (\<open>None\<close> when the header is absent) and \<^verbatim>\<open>request.get_json()\<close>, which gives the
  parsed body or raises.
\<close>

record request =
  Authorization :: "string option"
  get_json :: "exn + pyval"

text \<open>
  The log line is not modelled. \<^verbatim>\<open>not auth\<close> holds for \<open>None\<close> and for the empty
  string; \<^verbatim>\<open>parts[0]\<close> on an empty list raises \<^verbatim>\<open>IndexError\<close>.
\<close>

definition get_token_auth_header :: "request \<Rightarrow> exn + string" where
  "get_token_auth_header req =
     (let auth = Authorization req in
      if auth = None \<or> auth = Some [] then
        raise_AuthError ''authorization_header_missing''
          ''Authorization header is expected.'' 401
      else
        let parts = split (the auth) in
        if parts = [] then Inl IndexError
        else if lower (parts ! 0) \<noteq> ''bearer'' then
          raise_AuthError ''invalid_header''
            ''Authorization header must start with 'Bearer'.'' 401
        else if length parts = 1 then
          raise_AuthError ''invalid_header'' ''Token not found.'' 401
        else if length parts > 2 then
          raise_AuthError ''invalid_header''
            ''Authorization header must be 'Bearer <token>'.'' 401
        else Inr (parts ! 1))"

section \<open>The permission check\<close>

text \<open>
  \<open>payload\<close> is the dict the token library decoded. \<^verbatim>\<open>"permissions" not in payload\<close>
  asks for the key; \<^verbatim>\<open>permission not in payload["permissions"]\<close> is Python's \<^verbatim>\<open>in\<close>
  on whatever value is stored there.
\<close>

definition check_permissions :: "string \<Rightarrow> dict \<Rightarrow> exn + bool" where
  "check_permissions permission payload =
     (if map_of payload ''permissions'' = None then
        raise_AuthError ''invalid_claims'' ''Permissions not included in JWT.'' 403
      else
        bind (contains (the (map_of payload ''permissions'')) permission) (\<lambda>found.
          if \<not> found then
            raise_AuthError ''unauthorized'' ''Permission not found.'' 403
          else Inr True))"

section \<open>Configuration and the outside world\<close>

text \<open>
  The three module constants come from \<^verbatim>\<open>os.getenv\<close>, which gives \<open>None\<close> for a
  variable that is not set; an f-string prints \<open>None\<close> as the text \<^verbatim>\<open>None\<close>.
\<close>

record config =
  AUTH0_DOMAIN :: "string option"
  ALGORITHMS :: "string option list"
  API_AUDIENCE :: "string option"

definition fmt :: "string option \<Rightarrow> string" where
  "fmt v = (case v of None \<Rightarrow> ''None'' | Some s \<Rightarrow> s)"

text \<open>
  The library calls of \<^verbatim>\<open>verify_decode_jwt\<close>, as functions of their arguments:
  \<^item> \<open>urlopen url\<close>: the body that \<^verbatim>\<open>urlopen(url).read()\<close> gives, or the exception that
    either call raises (the endpoint cannot be reached, the connection breaks);
  \<^item> \<open>json_loads\<close>: \<^verbatim>\<open>json.loads\<close>;
  \<^item> \<open>get_unverified_header\<close>: \<^verbatim>\<open>jwt.get_unverified_header\<close>, a dict on success;
  \<^item> \<open>decode token key algorithms audience issuer\<close>: \<^verbatim>\<open>jwt.decode\<close>, the claims dict on
    success.
\<close>

record world =
  urlopen :: "string \<Rightarrow> lib_exn + string"
  json_loads :: "string \<Rightarrow> lib_exn + pyval"
  get_unverified_header :: "string \<Rightarrow> lib_exn + dict"
  decode :: "string \<Rightarrow> dict \<Rightarrow> string option list \<Rightarrow> string option \<Rightarrow> string
             \<Rightarrow> lib_exn + dict"

section \<open>The token verifier\<close>

text \<open>
  The loop over \<^verbatim>\<open>jwks["keys"]\<close>. There is no \<^verbatim>\<open>break\<close>: a later key with the same
  \<^verbatim>\<open>kid\<close> replaces an earlier one. In \<^verbatim>\<open>key["kid"] == unverified_header["kid"]\<close> the left
  side is evaluated first. \<open>rsa_key\<close> is the value of the variable so far.
\<close>

fun find_rsa_key :: "pyval list \<Rightarrow> dict \<Rightarrow> dict \<Rightarrow> exn + dict" where
  "find_rsa_key [] unverified_header rsa_key = Inr rsa_key"
| "find_rsa_key (key # keys) unverified_header rsa_key =
     bind (getitem key ''kid'') (\<lambda>kid.
     bind (getitem (PDict unverified_header) ''kid'') (\<lambda>hkid.
       if py_eq kid hkid then
         bind (getitem key ''kty'') (\<lambda>kty.
         bind (getitem key ''kid'') (\<lambda>kid'.
         bind (getitem key ''use'') (\<lambda>use.
         bind (getitem key ''n'') (\<lambda>n.
         bind (getitem key ''e'') (\<lambda>e.
           find_rsa_key keys unverified_header
             [(''kty'', kty), (''kid'', kid'), (''use'', use), (''n'', n), (''e'', e)])))))
       else find_rsa_key keys unverified_header rsa_key))"

text \<open>
  \<^verbatim>\<open>verify_decode_jwt\<close>. The two lines before the \<^verbatim>\<open>try\<close> are not guarded: what
  \<^verbatim>\<open>urlopen\<close>, \<^verbatim>\<open>read\<close> or \<^verbatim>\<open>json.loads\<close> raises leaves the function as it is. The
  first \<^verbatim>\<open>except\<close> catches \<^verbatim>\<open>JWTError\<close> and its subclasses only; around \<^verbatim>\<open>jwt.decode\<close>
  the clauses are tried in order and the last catches every exception. A dict is true when
  it is not empty.
\<close>

definition verify_decode_jwt :: "config \<Rightarrow> world \<Rightarrow> string \<Rightarrow> exn + dict" where
  "verify_decode_jwt cfg w token =
     (case urlopen w (''https://'' @ fmt (AUTH0_DOMAIN cfg) @ ''/.well-known/jwks.json'') of
        Inl x \<Rightarrow> Inl (Lib x)
      | Inr body \<Rightarrow>
     (case json_loads w body of
        Inl x \<Rightarrow> Inl (Lib x)
      | Inr jwks \<Rightarrow>
     (case get_unverified_header w token of
        Inl e \<Rightarrow>
          if is_JWTError e then
            raise_AuthError ''invalid_header''
              (''Error decoding token header: '' @ str_of_exn e) 400
          else Inl (Lib e)
      | Inr unverified_header \<Rightarrow>
          if map_of unverified_header ''kid'' = None then
            raise_AuthError ''invalid_header'' ''Authorization header is malformed.'' 401
          else
            bind (getitem jwks ''keys'') (\<lambda>ks.
            bind (iter ks) (\<lambda>keys.
            bind (find_rsa_key keys unverified_header []) (\<lambda>rsa_key.
              if rsa_key \<noteq> [] then
                (case decode w token rsa_key (ALGORITHMS cfg) (API_AUDIENCE cfg)
                        (''https://'' @ fmt (AUTH0_DOMAIN cfg) @ ''/'') of
                   Inr payload \<Rightarrow> Inr payload
                 | Inl (ExpiredSignatureError m) \<Rightarrow>
                     raise_AuthError ''token_expired'' ''Token is expired.'' 401
                 | Inl (JWTClaimsError m) \<Rightarrow>
                     raise_AuthError ''invalid_claims''
                       ''Incorrect claims. Check audience and issuer.'' 401
                 | Inl _ \<Rightarrow>
                     raise_AuthError ''invalid_header''
                       ''Unable to parse authentication token.'' 400)
              else
                raise_AuthError ''invalid_header''
                  ''Unable to find the appropriate key.'' 400))))))"

section \<open>The decorator\<close>

text \<open>
  \<^verbatim>\<open>requires_auth(permission)(f)\<close> is the wrapper. The wrapped operation \<open>f\<close> gets the
  payload, then the wrapper's own arguments \<open>args\<close>; it runs on the state \<open>s\<close> of
  everything it may change (the tables, for the endpoints) and gives back its result or
  exception with the state it leaves. The three checks read the request and the world and
  change nothing, so the state passes them by.
\<close>

definition requires_auth ::
  "string \<Rightarrow> (dict \<Rightarrow> 'a \<Rightarrow> 's \<Rightarrow> (exn + 'r) \<times> 's)
     \<Rightarrow> config \<Rightarrow> world \<Rightarrow> request \<Rightarrow> 'a \<Rightarrow> 's \<Rightarrow> (exn + 'r) \<times> 's" where
  "requires_auth permission f cfg w req args s =
     (case get_token_auth_header req of
        Inl x \<Rightarrow> (Inl x, s)
      | Inr token \<Rightarrow>
     (case verify_decode_jwt cfg w token of
        Inl x \<Rightarrow> (Inl x, s)
      | Inr payload \<Rightarrow>
     (case check_permissions permission payload of
        Inl x \<Rightarrow> (Inl x, s)
      | Inr ok \<Rightarrow> f payload args s)))"

section \<open>The application: tables, responses, error handlers\<close>

text \<open>
  The rows of the two tables, with the column types of \<^verbatim>\<open>models.py\<close> (the \<^verbatim>\<open>id\<close>
  columns are \<open>actor_id\<close> and \<open>movie_id\<close> here). The state an endpoint runs on is the
  content of the tables.
\<close>

datatype date = Date int int int

record Actor =
  actor_id :: int
  name :: string
  age :: int
  gender :: string

record Movie =
  movie_id :: int
  title :: string
  release_date :: date

record db =
  actors :: "Actor list"
  movies :: "Movie list"

text \<open>
  Two library calls of the endpoints, as functions of their arguments:
  \<open>actor_insert name age gender\<close> is \<^verbatim>\<open>Actor(name=..., age=..., gender=...).insert()\<close>, giving
  the stored row or the exception of the commit, with the tables it leaves; \<open>strftime\<close>
  is \<^verbatim>\<open>date.strftime\<close>.
\<close>

record runtime =
  actor_insert :: "pyval \<Rightarrow> pyval \<Rightarrow> pyval \<Rightarrow> db \<Rightarrow> (lib_exn + Actor) \<times> db"
  strftime :: "date \<Rightarrow> string \<Rightarrow> string"

definition format_actor :: "Actor \<Rightarrow> pyval" where
  "format_actor a =
     PDict [(''id'', PInt (actor_id a)), (''name'', PStr (name a)),
            (''age'', PInt (age a)), (''gender'', PStr (gender a))]"

definition format_movie :: "runtime \<Rightarrow> Movie \<Rightarrow> pyval" where
  "format_movie rt m =
     PDict [(''id'', PInt (movie_id m)), (''title'', PStr (title m)),
            (''release_date'', PStr (strftime rt (release_date m) ''%Y-%m-%d''))]"

text \<open>
  A response is a body with a status. \<^verbatim>\<open>jsonify(d)\<close> is a JSON body with status 200; a
  view that returns \<^verbatim>\<open>(jsonify(d), code)\<close> sets the status. \<open>Html\<close> is the page the
  framework writes for an \<^verbatim>\<open>HTTPException\<close> that no handler takes; it shows the
  description.
\<close>

datatype body = Json pyval | Html string

datatype response = Response body nat

definition jsonify :: "(string \<times> pyval) list \<Rightarrow> response" where
  "jsonify d = Response (Json (PDict d)) 200"

fun with_status :: "response \<Rightarrow> nat \<Rightarrow> response" where
  "with_status (Response b c) st = Response b st"

text \<open>The four handlers registered in \<^verbatim>\<open>create_app\<close>.\<close>

definition auth_error :: "AuthError \<Rightarrow> response" where
  "auth_error e =
     with_status
       (jsonify [(''success'', PBool False), (''error'', PInt (int (status_code e))),
                 (''message'', PStr (description (error e)))])
       (status_code e)"

definition unprocessable :: "exn \<Rightarrow> response" where
  "unprocessable e =
     with_status
       (jsonify [(''success'', PBool False), (''error'', PInt 422),
                 (''message'', PStr ''unprocessable'')]) 422"

definition not_found :: "exn \<Rightarrow> response" where
  "not_found e =
     with_status
       (jsonify [(''success'', PBool False), (''error'', PInt 404),
                 (''message'', PStr ''resource not found'')]) 404"

definition internal_server_error :: "exn \<Rightarrow> response" where
  "internal_server_error e =
     with_status
       (jsonify [(''success'', PBool False), (''error'', PInt 500),
                 (''message'', PStr ''Internal Server Error. Please try again later.'')]) 500"

text \<open>
  How the framework answers an exception that leaves a view, given the handlers above: an
  \<^verbatim>\<open>AuthError\<close> goes to \<open>auth_error\<close>; an \<^verbatim>\<open>HTTPException\<close> goes to the handler
  registered for its code, and is its own response (the page) when there is none; any
  other exception is answered by the handler for 500.
\<close>

fun handle_user_exception :: "exn \<Rightarrow> response" where
  "handle_user_exception (AuthErr e) = auth_error e"
| "handle_user_exception (HTTPException c d) =
     (if c = 422 then unprocessable (HTTPException c d)
      else if c = 404 then not_found (HTTPException c d)
      else if c = 500 then internal_server_error (HTTPException c d)
      else Response (Html d) c)"
| "handle_user_exception x = internal_server_error x"

definition full_dispatch_request :: "(exn + response) \<times> 's \<Rightarrow> response \<times> 's" where
  "full_dispatch_request r =
     (case fst r of Inl x \<Rightarrow> (handle_user_exception x, snd r) | Inr rv \<Rightarrow> (rv, snd r))"

section \<open>The views\<close>

text \<open>
  \<^verbatim>\<open>not x\<close> on a Python value: \<open>None\<close>, \<open>False\<close>, zero, and the empty string, list
  and dict are false.
\<close>

fun truthy :: "pyval \<Rightarrow> bool" where
  "truthy PNone = False"
| "truthy (PBool b) = b"
| "truthy (PInt n) = (n \<noteq> 0)"
| "truthy (PFloat f) = (f \<noteq> Finite 0)"
| "truthy (PStr s) = (s \<noteq> [])"
| "truthy (PList xs) = (xs \<noteq> [])"
| "truthy (PDict d) = (d \<noteq> [])"

text \<open>\<^verbatim>\<open>body.get(k, None)\<close>: only a dict has the method.\<close>

fun get_or_None :: "pyval \<Rightarrow> string \<Rightarrow> exn + pyval" where
  "get_or_None (PDict d) k = Inr (case map_of d k of None \<Rightarrow> PNone | Some v \<Rightarrow> v)"
| "get_or_None _ k = Inl AttributeError"

definition get_health :: "response" where
  "get_health = jsonify [(''success'', PBool True), (''health'', PBool True)]"

definition get_actors :: "dict \<Rightarrow> unit \<Rightarrow> db \<Rightarrow> (exn + response) \<times> db" where
  "get_actors jwt args s =
     (let rows = actors s in
      if rows = [] then (Inl (HTTPException 404 ''No actors found''), s)
      else (Inr (jsonify [(''success'', PBool True),
                          (''actors'', PList (map format_actor rows))]), s))"

definition get_movies :: "runtime \<Rightarrow> dict \<Rightarrow> unit \<Rightarrow> db \<Rightarrow> (exn + response) \<times> db" where
  "get_movies rt jwt args s =
     (let rows = movies s in
      if rows = [] then (Inl (HTTPException 404 ''No movies found''), s)
      else (Inr (jsonify [(''success'', PBool True),
                          (''movies'', PList (map (format_movie rt) rows))]), s))"

definition create_actor ::
  "runtime \<Rightarrow> request \<Rightarrow> dict \<Rightarrow> unit \<Rightarrow> db \<Rightarrow> (exn + response) \<times> db" where
  "create_actor rt req jwt args s =
     (case get_json req of
        Inl x \<Rightarrow> (Inl x, s)
      | Inr body \<Rightarrow>
          if \<not> truthy body then
            (Inl (HTTPException 400 ''Bad request, no data provided''), s)
          else
            (case bind (get_or_None body ''name'') (\<lambda>n.
                  bind (get_or_None body ''age'') (\<lambda>a.
                  bind (get_or_None body ''gender'') (\<lambda>g. Inr (n, a, g)))) of
               Inl x \<Rightarrow> (Inl x, s)
             | Inr (n, a, g) \<Rightarrow>
                 if \<not> truthy n \<or> \<not> truthy a \<or> \<not> truthy g then
                   (Inl (HTTPException 400 ''Missing required fields''), s)
                 else
                   (case actor_insert rt n a g s of
                      (Inl x, s') \<Rightarrow> (Inl (Lib x), s')
                    | (Inr new_actor, s') \<Rightarrow>
                        (Inr (jsonify [(''success'', PBool True),
                                       (''actor'', format_actor new_actor)]), s'))))"

text \<open>
  The endpoints as \<^verbatim>\<open>create_app\<close> registers them: the view under its decorator, and the
  framework's answer to what comes out.
\<close>

definition route_get_actors :: "config \<Rightarrow> world \<Rightarrow> request \<Rightarrow> db \<Rightarrow> response \<times> db" where
  "route_get_actors cfg w req s =
     full_dispatch_request (requires_auth ''get:actors'' get_actors cfg w req () s)"

definition route_get_movies ::
  "runtime \<Rightarrow> config \<Rightarrow> world \<Rightarrow> request \<Rightarrow> db \<Rightarrow> response \<times> db" where
  "route_get_movies rt cfg w req s =
     full_dispatch_request (requires_auth ''get:movies'' (get_movies rt) cfg w req () s)"

definition route_create_actor ::
  "runtime \<Rightarrow> config \<Rightarrow> world \<Rightarrow> request \<Rightarrow> db \<Rightarrow> response \<times> db" where
  "route_create_actor rt cfg w req s =
     full_dispatch_request
       (requires_auth ''post:actors'' (create_actor rt req) cfg w req () s)"

section \<open>Notions used in the statements\<close>

text \<open>The two addresses that \<^verbatim>\<open>verify_decode_jwt\<close> builds from the domain.\<close>

definition jwks_url :: "config \<Rightarrow> string" where
  "jwks_url cfg = ''https://'' @ fmt (AUTH0_DOMAIN cfg) @ ''/.well-known/jwks.json''"

definition issuer :: "config \<Rightarrow> string" where
  "issuer cfg = ''https://'' @ fmt (AUTH0_DOMAIN cfg) @ ''/''"

text \<open>
  A key entry of the key set as the identity provider publishes it: an object with the
  five fields the loop reads.
\<close>

fun wf_key :: "pyval \<Rightarrow> bool" where
  "wf_key (PDict d) =
     list_all (\<lambda>f. map_of d f \<noteq> None) [''kty'', ''kid'', ''use'', ''n'', ''e'']"
| "wf_key _ = False"

text \<open>A key entry whose \<^verbatim>\<open>kid\<close> equals the one of the token header.\<close>

definition kid_matches :: "pyval \<Rightarrow> pyval \<Rightarrow> bool" where
  "kid_matches hkid key =
     (case getitem key ''kid'' of Inl x \<Rightarrow> False | Inr kid \<Rightarrow> py_eq kid hkid)"

fun field :: "pyval \<Rightarrow> string \<Rightarrow> pyval" where
  "field (PDict d) f = (case map_of d f of None \<Rightarrow> PNone | Some v \<Rightarrow> v)"
| "field _ f = PNone"

text \<open>The dict that the loop builds from a key entry.\<close>

definition rsa_key_of :: "pyval \<Rightarrow> dict" where
  "rsa_key_of key =
     [(''kty'', field key ''kty''), (''kid'', field key ''kid''),
      (''use'', field key ''use''), (''n'', field key ''n''), (''e'', field key ''e'')]"

text \<open>Whether a result is a raised \<^verbatim>\<open>AuthError\<close>.\<close>

fun raises_AuthError :: "exn + 'a \<Rightarrow> bool" where
  "raises_AuthError (Inl (AuthErr e)) = True"
| "raises_AuthError _ = False"

text \<open>
  The response envelope: a JSON object with a boolean \<^verbatim>\<open>success\<close>; a failure envelope
  has \<^verbatim>\<open>success\<close> false, an integer \<^verbatim>\<open>error\<close> equal to the status, and a string
  \<^verbatim>\<open>message\<close>.
\<close>

fun is_envelope :: "response \<Rightarrow> bool" where
  "is_envelope (Response (Json (PDict d)) st) =
     (case map_of d ''success'' of Some (PBool b) \<Rightarrow> True | _ \<Rightarrow> False)"
| "is_envelope _ = False"

fun is_failure_envelope :: "response \<Rightarrow> bool" where
  "is_failure_envelope (Response (Json (PDict d)) st) =
     (map_of d ''success'' = Some (PBool False)
      \<and> map_of d ''error'' = Some (PInt (int st))
      \<and> (case map_of d ''message'' of Some (PStr m) \<Rightarrow> True | _ \<Rightarrow> False))"
| "is_failure_envelope _ = False"

section \<open>Example inputs\<close>

text \<open>
  A configuration, a key set with one key \<^verbatim>\<open>k1\<close>, and a world in which the key set is
  served and the token library behaves by the name of the token: \<^verbatim>\<open>garbage\<close> has no
  readable header, \<^verbatim>\<open>nokid\<close> a header without \<^verbatim>\<open>kid\<close>, \<^verbatim>\<open>otherkid\<close> names a key
  that is not in the set, \<^verbatim>\<open>expired\<close>, \<^verbatim>\<open>wrongaud\<close> and \<^verbatim>\<open>badsig\<close> fail in
  \<^verbatim>\<open>jwt.decode\<close>, and any other token decodes to the given payload.
\<close>

definition ex_cfg :: config where
  "ex_cfg = \<lparr>AUTH0_DOMAIN = Some ''idp.example'', ALGORITHMS = [Some ''RS256''],
             API_AUDIENCE = Some ''casting''\<rparr>"

definition ex_key :: pyval where
  "ex_key = PDict [(''kty'', PStr ''RSA''), (''kid'', PStr ''k1''), (''use'', PStr ''sig''),
                   (''n'', PStr ''0vx7''), (''e'', PStr ''AQAB'')]"

definition ex_jwks :: pyval where
  "ex_jwks = PDict [(''keys'', PList [ex_key])]"

definition ex_header :: "string \<Rightarrow> lib_exn + dict" where
  "ex_header token =
     (if token = ''garbage'' then Inl (JWTError ''Error decoding token headers.'')
      else if token = ''nokid'' then Inr [(''alg'', PStr ''RS256'')]
      else if token = ''otherkid'' then Inr [(''alg'', PStr ''RS256''), (''kid'', PStr ''k2'')]
      else Inr [(''alg'', PStr ''RS256''), (''kid'', PStr ''k1'')])"

definition ex_decode ::
  "dict \<Rightarrow> string \<Rightarrow> dict \<Rightarrow> string option list \<Rightarrow> string option \<Rightarrow> string
     \<Rightarrow> lib_exn + dict" where
  "ex_decode payload token key algs aud iss =
     (if token = ''expired'' then Inl (ExpiredSignatureError ''Signature has expired.'')
      else if token = ''wrongaud'' then Inl (JWTClaimsError ''Invalid audience'')
      else if token = ''badsig'' then Inl (JWTError ''Signature verification failed.'')
      else Inr payload)"

definition ex_world :: "dict \<Rightarrow> world" where
  "ex_world payload =
     \<lparr>urlopen = (\<lambda>url. Inr ''jwks''), json_loads = (\<lambda>b. Inr ex_jwks),
      get_unverified_header = ex_header, decode = ex_decode payload\<rparr>"

text \<open>A world in which the key-set endpoint cannot be reached.\<close>

definition down_world :: world where
  "down_world =
     \<lparr>urlopen = (\<lambda>url. Inl (OtherException ''URLError'')), json_loads = (\<lambda>b. Inr ex_jwks),
      get_unverified_header = ex_header, decode = ex_decode []\<rparr>"

text \<open>A world in which the endpoint answers with something that is not JSON.\<close>

definition html_world :: world where
  "html_world =
     \<lparr>urlopen = (\<lambda>url. Inr ''<html>''),
      json_loads = (\<lambda>b. Inl (OtherException ''JSONDecodeError'')),
      get_unverified_header = ex_header, decode = ex_decode []\<rparr>"

definition ex_payload :: "string \<Rightarrow> dict" where
  "ex_payload permission = [(''sub'', PStr ''user1''), (''permissions'', PList [PStr permission])]"

definition ex_request :: "string \<Rightarrow> request" where
  "ex_request a = \<lparr>Authorization = Some a, get_json = Inr (PDict [])\<rparr>"

definition ex_runtime :: runtime where
  "ex_runtime =
     \<lparr>actor_insert = (\<lambda>n a g s. (Inl (OtherException ''IntegrityError''), s)),
      strftime = (\<lambda>d f. ''2020-01-01'')\<rparr>"

definition empty_db :: db where
  "empty_db = \<lparr>actors = [], movies = []\<rparr>"

text \<open>
  An operation that only records how it was called: the state is the list of calls made
  so far.
\<close>

definition recorder ::
  "dict \<Rightarrow> string \<Rightarrow> (dict \<times> string) list
     \<Rightarrow> (exn + response) \<times> (dict \<times> string) list" where
  "recorder payload args calls =
     (Inr (jsonify [(''success'', PBool True), (''args'', PStr args)]),
      calls @ [(payload, args)])"

section \<open>Facts about the model\<close>

lemma split_acc_all_space:
  "\<forall>c\<in>set s. isspace c \<Longrightarrow> split_acc [] s = []"
  by (induction s) auto

text \<open>Every part that \<open>split\<close> gives is non-empty and free of whitespace.\<close>

lemma split_acc_parts:
  "\<forall>c\<in>set w. \<not> isspace c \<Longrightarrow>
     \<forall>p\<in>set (split_acc w s). p \<noteq> [] \<and> (\<forall>c\<in>set p. \<not> isspace c)"
proof (induction s arbitrary: w)
  case Nil
  then show ?case by auto
next
  case (Cons a s)
  show ?case
  proof (cases "isspace a")
    case True
    have "\<forall>p\<in>set (split_acc [] s). p \<noteq> [] \<and> (\<forall>c\<in>set p. \<not> isspace c)"
      by (rule Cons.IH) simp
    then show ?thesis using True Cons.prems by auto
  next
    case False
    have "\<forall>p\<in>set (split_acc (a # w) s). p \<noteq> [] \<and> (\<forall>c\<in>set p. \<not> isspace c)"
      by (rule Cons.IH) (use False Cons.prems in auto)
    then show ?thesis using False by simp
  qed
qed

lemma split_parts: "p \<in> set (split s) \<Longrightarrow> p \<noteq> [] \<and> (\<forall>c\<in>set p. \<not> isspace c)"
  unfolding split_def using split_acc_parts[of "[]" s] by simp

lemma py_eq_PStr: "py_eq e (PStr s) = (e = PStr s)"
  by (cases e) (auto split: list.splits)

text \<open>
  A header of whitespace only has no parts, and \<^verbatim>\<open>parts[0]\<close> raises; a header whose
  first part is not \<^verbatim>\<open>bearer\<close> is refused with 401.
\<close>

lemma whitespace_header_IndexError:
  "Authorization req = Some a \<Longrightarrow> a \<noteq> [] \<Longrightarrow> \<forall>c\<in>set a. isspace c
     \<Longrightarrow> get_token_auth_header req = Inl IndexError"
  by (simp add: get_token_auth_header_def split_def split_acc_all_space)

lemma not_bearer_invalid_header:
  "Authorization req = Some a \<Longrightarrow> split a \<noteq> [] \<Longrightarrow> lower (split a ! 0) \<noteq> ''bearer''
     \<Longrightarrow> get_token_auth_header req =
         raise_AuthError ''invalid_header''
           ''Authorization header must start with 'Bearer'.'' 401"
  by (auto simp: get_token_auth_header_def split_def Let_def)

text \<open>
  On a key set of well-formed entries the loop cannot raise, and it leaves the dict
  built from the last entry whose \<^verbatim>\<open>kid\<close> matches, or the initial value when none does.
\<close>

lemma find_rsa_key_wf:
  assumes "\<forall>k\<in>set keys. wf_key k" and "map_of h ''kid'' = Some hkid"
  shows "find_rsa_key keys h acc =
           Inr (case filter (kid_matches hkid) keys of
                  [] \<Rightarrow> acc | ms \<Rightarrow> rsa_key_of (last ms))"
  using assms
proof (induction keys arbitrary: acc)
  case Nil
  then show ?case by simp
next
  case (Cons key keys)
  from Cons.prems obtain d where d: "key = PDict d" and
    f: "map_of d ''kty'' \<noteq> None" "map_of d ''kid'' \<noteq> None" "map_of d ''use'' \<noteq> None"
       "map_of d ''n'' \<noteq> None" "map_of d ''e'' \<noteq> None"
    by (cases key) auto
  from f obtain kty kid use n e where
    v: "map_of d ''kty'' = Some kty" "map_of d ''kid'' = Some kid"
       "map_of d ''use'' = Some use" "map_of d ''n'' = Some n" "map_of d ''e'' = Some e"
    by auto
  have IH: "\<And>acc. find_rsa_key keys h acc =
           Inr (case filter (kid_matches hkid) keys of
                  [] \<Rightarrow> acc | ms \<Rightarrow> rsa_key_of (last ms))"
    using Cons by simp
  show ?case
  proof (cases "py_eq kid hkid")
    case True
    then have m: "kid_matches hkid key" by (simp add: kid_matches_def d v)
    have "find_rsa_key (key # keys) h acc = find_rsa_key keys h (rsa_key_of key)"
      using True Cons.prems(2) by (simp add: bind_def d v rsa_key_of_def)
    then show ?thesis using m by (simp add: IH split: list.splits)
  next
    case False
    then have m: "\<not> kid_matches hkid key" by (simp add: kid_matches_def d v)
    have "find_rsa_key (key # keys) h acc = find_rsa_key keys h acc"
      using False Cons.prems(2) by (simp add: bind_def d v)
    then show ?thesis using m by (simp add: IH)
  qed
qed

text \<open>
  What \<^verbatim>\<open>verify_decode_jwt\<close> does once the key set is fetched and the header has a
  \<^verbatim>\<open>kid\<close>.
\<close>

lemma verify_after_header:
  assumes "urlopen w (jwks_url cfg) = Inr body" and "json_loads w body = Inr (PDict j)"
    and "map_of j ''keys'' = Some (PList keys)" and "\<forall>k\<in>set keys. wf_key k"
    and "get_unverified_header w token = Inr h" and "map_of h ''kid'' = Some hkid"
  shows "verify_decode_jwt cfg w token =
     (case filter (kid_matches hkid) keys of
        [] \<Rightarrow> raise_AuthError ''invalid_header'' ''Unable to find the appropriate key.'' 400
      | ms \<Rightarrow>
        (case decode w token (rsa_key_of (last ms)) (ALGORITHMS cfg) (API_AUDIENCE cfg)
                (issuer cfg) of
           Inr payload \<Rightarrow> Inr payload
         | Inl (ExpiredSignatureError m) \<Rightarrow>
             raise_AuthError ''token_expired'' ''Token is expired.'' 401
         | Inl (JWTClaimsError m) \<Rightarrow>
             raise_AuthError ''invalid_claims''
               ''Incorrect claims. Check audience and issuer.'' 401
         | Inl _ \<Rightarrow>
             raise_AuthError ''invalid_header''
               ''Unable to parse authentication token.'' 400))"
proof -
  have u: "urlopen w (''https://'' @ fmt (AUTH0_DOMAIN cfg) @ ''/.well-known/jwks.json'')
             = Inr body"
    using assms(1) by (simp add: jwks_url_def)
  have r: "find_rsa_key keys h [] =
      Inr (case filter (kid_matches hkid) keys of [] \<Rightarrow> [] | ms \<Rightarrow> rsa_key_of (last ms))"
    by (rule find_rsa_key_wf[OF assms(4) assms(6)])
  show ?thesis
  proof (cases "filter (kid_matches hkid) keys")
    case Nil
    then show ?thesis using assms(2,3,5,6) u r
      by (simp add: verify_decode_jwt_def bind_def)
  next
    case (Cons a ms)
    have ne: "rsa_key_of (last (a # ms)) \<noteq> []" by (simp add: rsa_key_of_def)
    show ?thesis using assms(2,3,5,6) u r Cons ne
      by (simp add: verify_decode_jwt_def bind_def issuer_def del: last.simps)
  qed
qed

text \<open>The responses of the four registered handlers are failure envelopes.\<close>

lemma handlers_give_envelopes:
  "is_failure_envelope (auth_error e)"
  "is_failure_envelope (unprocessable x)"
  "is_failure_envelope (not_found x)"
  "is_failure_envelope (internal_server_error x)"
  by (simp_all add: auth_error_def unprocessable_def not_found_def
      internal_server_error_def jsonify_def)

subsection \<open>The example inputs, evaluated\<close>

lemma ex_fetch:
  "urlopen (ex_world p) (jwks_url ex_cfg) = Inr ''jwks''"
  "json_loads (ex_world p) ''jwks'' = Inr (PDict [(''keys'', PList [ex_key])])"
  "get_unverified_header (ex_world p) t = ex_header t"
  "decode (ex_world p) = ex_decode p"
  by (simp_all add: ex_world_def ex_jwks_def)

lemma ex_key_wf: "\<forall>k\<in>set [ex_key]. wf_key k"
  by (simp add: ex_key_def)

lemma ex_key_matches:
  "kid_matches (PStr ''k1'') ex_key"
  "\<not> kid_matches (PStr ''k2'') ex_key"
  by (simp_all add: kid_matches_def ex_key_def)

lemma ex_headers:
  "ex_header ''otherkid'' = Inr [(''alg'', PStr ''RS256''), (''kid'', PStr ''k2'')]"
  "ex_header ''expired'' = Inr [(''alg'', PStr ''RS256''), (''kid'', PStr ''k1'')]"
  "ex_header ''wrongaud'' = Inr [(''alg'', PStr ''RS256''), (''kid'', PStr ''k1'')]"
  "ex_header ''badsig'' = Inr [(''alg'', PStr ''RS256''), (''kid'', PStr ''k1'')]"
  "ex_header ''good'' = Inr [(''alg'', PStr ''RS256''), (''kid'', PStr ''k1'')]"
  by (simp_all add: ex_header_def)

lemma ex_decodes:
  "ex_decode p ''expired'' k al au i = Inl (ExpiredSignatureError ''Signature has expired.'')"
  "ex_decode p ''wrongaud'' k al au i = Inl (JWTClaimsError ''Invalid audience'')"
  "ex_decode p ''badsig'' k al au i = Inl (JWTError ''Signature verification failed.'')"
  "ex_decode p ''good'' k al au i = Inr p"
  by (simp_all add: ex_decode_def)

lemma ex_splits:
  "split ''Bearer good'' = [''Bearer'', ''good'']"
  "split ''Bearer expired'' = [''Bearer'', ''expired'']"
  "split ''Basic abc'' = [''Basic'', ''abc'']"
  "split ''Bearer'' = [''Bearer'']"
  "split ''bearer a b'' = [''bearer'', ''a'', ''b'']"
  "split ''BEARER  abc.def'' = [''BEARER'', ''abc.def'']"
  by code_simp+

lemma ex_lowers:
  "lower ''Bearer'' = ''bearer''"
  "lower ''Basic'' = ''basic''"
  "lower ''bearer'' = ''bearer''"
  "lower ''BEARER'' = ''bearer''"
  by code_simp+

lemma ex_tokens:
  "get_token_auth_header (ex_request ''Bearer good'') = Inr ''good''"
  "get_token_auth_header (ex_request ''Bearer expired'') = Inr ''expired''"
  "get_token_auth_header (ex_request ''Basic abc'') =
     raise_AuthError ''invalid_header'' ''Authorization header must start with 'Bearer'.'' 401"
  by (simp_all add: get_token_auth_header_def ex_request_def ex_splits ex_lowers)

lemma ex_verify:
  "verify_decode_jwt ex_cfg (ex_world p) ''good'' = Inr p"
  "verify_decode_jwt ex_cfg (ex_world p) ''expired'' =
     raise_AuthError ''token_expired'' ''Token is expired.'' 401"
  using verify_after_header[where w = "ex_world p" and cfg = ex_cfg and body = "''jwks''"
      and j = "[(''keys'', PList [ex_key])]" and keys = "[ex_key]" and token = "''good''"
      and hkid = "PStr ''k1''" and h = "[(''alg'', PStr ''RS256''), (''kid'', PStr ''k1'')]",
      OF ex_fetch(1) ex_fetch(2) _ ex_key_wf]
    verify_after_header[where w = "ex_world p" and cfg = ex_cfg and body = "''jwks''"
      and j = "[(''keys'', PList [ex_key])]" and keys = "[ex_key]" and token = "''expired''"
      and hkid = "PStr ''k1''" and h = "[(''alg'', PStr ''RS256''), (''kid'', PStr ''k1'')]",
      OF ex_fetch(1) ex_fetch(2) _ ex_key_wf]
  by (simp_all add: ex_fetch ex_headers ex_key_matches ex_decodes)

lemma ex_check:
  "check_permissions ''post:actors'' (ex_payload ''get:actors'') =
     raise_AuthError ''unauthorized'' ''Permission not found.'' 403"
  "check_permissions ''post:actors'' (ex_payload ''post:actors'') = Inr True"
  by (simp_all add: check_permissions_def ex_payload_def bind_def)

section \<open>The claims\<close>

subsection \<open>The token verifier\<close>

text \<open>
  Claim C1. In \<^verbatim>\<open>verify_decode_jwt\<close>, once the key set has been fetched and decoded (the
  two lines before the \<^verbatim>\<open>try\<close>), the two failures of the header stage have the same
  code and different statuses: a token whose header the library cannot parse (it raises
  \<^verbatim>\<open>JWTError\<close>) gives \<^verbatim>\<open>invalid_header\<close> with status 400, and a token whose header
  parses but has no \<^verbatim>\<open>kid\<close> gives \<^verbatim>\<open>invalid_header\<close> with status 401.
\<close>

theorem verify_decode_jwt_header_stage:
  assumes "urlopen w (jwks_url cfg) = Inr body" and "json_loads w body = Inr jwks"
  shows "(\<forall>e. get_unverified_header w token = Inl e \<and> is_JWTError e \<longrightarrow>
            verify_decode_jwt cfg w token =
              raise_AuthError ''invalid_header''
                (''Error decoding token header: '' @ str_of_exn e) 400)
       \<and> (\<forall>h. get_unverified_header w token = Inr h \<and> map_of h ''kid'' = None \<longrightarrow>
            verify_decode_jwt cfg w token =
              raise_AuthError ''invalid_header'' ''Authorization header is malformed.'' 401)"
  using assms by (simp add: verify_decode_jwt_def jwks_url_def)

theorem verify_decode_jwt_header_stage_witness:
  "urlopen (ex_world []) (jwks_url ex_cfg) = Inr ''jwks''
   \<and> json_loads (ex_world []) ''jwks'' = Inr ex_jwks
   \<and> get_unverified_header (ex_world []) ''garbage'' =
       Inl (JWTError ''Error decoding token headers.'')
   \<and> is_JWTError (JWTError ''Error decoding token headers.'')
   \<and> verify_decode_jwt ex_cfg (ex_world []) ''garbage'' =
       raise_AuthError ''invalid_header''
         ''Error decoding token header: Error decoding token headers.'' 400
   \<and> get_unverified_header (ex_world []) ''nokid'' = Inr [(''alg'', PStr ''RS256'')]
   \<and> map_of [(''alg'', PStr ''RS256'')] ''kid'' = None
   \<and> verify_decode_jwt ex_cfg (ex_world []) ''nokid'' =
       raise_AuthError ''invalid_header'' ''Authorization header is malformed.'' 401"
  using verify_decode_jwt_header_stage[of "ex_world []" ex_cfg "''jwks''" ex_jwks "''garbage''"]
        verify_decode_jwt_header_stage[of "ex_world []" ex_cfg "''jwks''" ex_jwks "''nokid''"]
  by (simp add: ex_world_def ex_header_def)

text \<open>
  Claim C2. For a token whose header parses and has a \<^verbatim>\<open>kid\<close>, against a fetched key
  set of well-formed entries, each later outcome of \<^verbatim>\<open>verify_decode_jwt\<close> is exactly one
  of: no entry of the key set has that \<^verbatim>\<open>kid\<close>, giving \<^verbatim>\<open>invalid_header\<close>, "Unable
  to find the appropriate key.", 400; otherwise \<^verbatim>\<open>jwt.decode\<close> runs on the key built
  from the (last) matching entry, and an expired signature gives \<^verbatim>\<open>token_expired\<close>, 401,
  a claims error (audience, issuer) gives \<^verbatim>\<open>invalid_claims\<close>, "Incorrect claims. Check
  audience and issuer.", 401, any other exception gives \<^verbatim>\<open>invalid_header\<close>, "Unable to
  parse authentication token.", 400, and success returns the decoded claims.
\<close>

theorem verify_decode_jwt_outcomes:
  assumes "urlopen w (jwks_url cfg) = Inr body" and "json_loads w body = Inr (PDict j)"
    and "map_of j ''keys'' = Some (PList keys)" and "\<forall>k\<in>set keys. wf_key k"
    and "get_unverified_header w token = Inr h" and "map_of h ''kid'' = Some hkid"
  shows "(filter (kid_matches hkid) keys = [] \<longrightarrow>
            verify_decode_jwt cfg w token =
              raise_AuthError ''invalid_header'' ''Unable to find the appropriate key.'' 400)
       \<and> (filter (kid_matches hkid) keys \<noteq> [] \<longrightarrow>
           (let r = decode w token (rsa_key_of (last (filter (kid_matches hkid) keys)))
                      (ALGORITHMS cfg) (API_AUDIENCE cfg) (issuer cfg)
            in (\<forall>m. r = Inl (ExpiredSignatureError m) \<longrightarrow>
                  verify_decode_jwt cfg w token =
                    raise_AuthError ''token_expired'' ''Token is expired.'' 401)
             \<and> (\<forall>m. r = Inl (JWTClaimsError m) \<longrightarrow>
                  verify_decode_jwt cfg w token =
                    raise_AuthError ''invalid_claims''
                      ''Incorrect claims. Check audience and issuer.'' 401)
             \<and> (\<forall>m. r = Inl (JWTError m) \<or> r = Inl (OtherException m) \<longrightarrow>
                  verify_decode_jwt cfg w token =
                    raise_AuthError ''invalid_header''
                      ''Unable to parse authentication token.'' 400)
             \<and> (\<forall>payload. r = Inr payload \<longrightarrow>
                  verify_decode_jwt cfg w token = Inr payload)))"
  unfolding verify_after_header[OF assms] Let_def
  by (auto split: list.splits)

theorem verify_decode_jwt_outcomes_witness:
  "verify_decode_jwt ex_cfg (ex_world (ex_payload ''get:actors'')) ''otherkid'' =
     raise_AuthError ''invalid_header'' ''Unable to find the appropriate key.'' 400
 \<and> verify_decode_jwt ex_cfg (ex_world (ex_payload ''get:actors'')) ''expired'' =
     raise_AuthError ''token_expired'' ''Token is expired.'' 401
 \<and> verify_decode_jwt ex_cfg (ex_world (ex_payload ''get:actors'')) ''wrongaud'' =
     raise_AuthError ''invalid_claims'' ''Incorrect claims. Check audience and issuer.'' 401
 \<and> verify_decode_jwt ex_cfg (ex_world (ex_payload ''get:actors'')) ''badsig'' =
     raise_AuthError ''invalid_header'' ''Unable to parse authentication token.'' 400
 \<and> verify_decode_jwt ex_cfg (ex_world (ex_payload ''get:actors'')) ''good'' =
     Inr (ex_payload ''get:actors'')"
proof -
  let ?w = "ex_world (ex_payload ''get:actors'')"
  note inst = verify_decode_jwt_outcomes[where w = ?w and cfg = ex_cfg and body = "''jwks''"
      and j = "[(''keys'', PList [ex_key])]" and keys = "[ex_key]",
      OF ex_fetch(1) ex_fetch(2) _ ex_key_wf]
  have a: "verify_decode_jwt ex_cfg ?w ''otherkid'' =
     raise_AuthError ''invalid_header'' ''Unable to find the appropriate key.'' 400"
    using inst[where token = "''otherkid''" and hkid = "PStr ''k2''"
        and h = "[(''alg'', PStr ''RS256''), (''kid'', PStr ''k2'')]"]
    by (simp add: ex_fetch ex_headers ex_key_matches)
  have b: "verify_decode_jwt ex_cfg ?w ''expired'' =
     raise_AuthError ''token_expired'' ''Token is expired.'' 401"
    using inst[where token = "''expired''" and hkid = "PStr ''k1''"
        and h = "[(''alg'', PStr ''RS256''), (''kid'', PStr ''k1'')]"]
    by (simp add: ex_fetch ex_headers ex_key_matches ex_decodes)
  have c: "verify_decode_jwt ex_cfg ?w ''wrongaud'' =
     raise_AuthError ''invalid_claims'' ''Incorrect claims. Check audience and issuer.'' 401"
    using inst[where token = "''wrongaud''" and hkid = "PStr ''k1''"
        and h = "[(''alg'', PStr ''RS256''), (''kid'', PStr ''k1'')]"]
    by (simp add: ex_fetch ex_headers ex_key_matches ex_decodes)
  have d: "verify_decode_jwt ex_cfg ?w ''badsig'' =
     raise_AuthError ''invalid_header'' ''Unable to parse authentication token.'' 400"
    using inst[where token = "''badsig''" and hkid = "PStr ''k1''"
        and h = "[(''alg'', PStr ''RS256''), (''kid'', PStr ''k1'')]"]
    by (simp add: ex_fetch ex_headers ex_key_matches ex_decodes)
  have e: "verify_decode_jwt ex_cfg ?w ''good'' = Inr (ex_payload ''get:actors'')"
    using inst[where token = "''good''" and hkid = "PStr ''k1''"
        and h = "[(''alg'', PStr ''RS256''), (''kid'', PStr ''k1'')]"]
    by (simp add: ex_fetch ex_headers ex_key_matches ex_decodes)
  show ?thesis using a b c d e by blast
qed

text \<open>
  Claim C9, as the spec has it: when the key-set endpoint cannot be reached, the fetch
  fails with an \<^verbatim>\<open>AuthError\<close>. It does not: nothing guards \<^verbatim>\<open>urlopen\<close>, and its
  exception leaves \<^verbatim>\<open>verify_decode_jwt\<close> as it is.
\<close>

theorem key_set_unreachable_counterexample:
  "verify_decode_jwt ex_cfg down_world ''token'' = Inl (Lib (OtherException ''URLError''))
   \<and> \<not> raises_AuthError (verify_decode_jwt ex_cfg down_world ''token'')"
  by (simp add: verify_decode_jwt_def down_world_def)

text \<open>
  Claim C9, amended. When the key-set endpoint cannot be reached, or its answer is not
  JSON, \<^verbatim>\<open>verify_decode_jwt\<close> fails with the very exception that \<^verbatim>\<open>urlopen\<close>,
  \<^verbatim>\<open>read\<close> or \<^verbatim>\<open>json.loads\<close> raised, for every token, and this is not an
  \<^verbatim>\<open>AuthError\<close>.
\<close>

theorem key_set_failure_propagates:
  "(\<forall>x. urlopen w (jwks_url cfg) = Inl x \<longrightarrow>
      verify_decode_jwt cfg w token = Inl (Lib x)
      \<and> \<not> raises_AuthError (verify_decode_jwt cfg w token))
 \<and> (\<forall>body x. urlopen w (jwks_url cfg) = Inr body \<and> json_loads w body = Inl x \<longrightarrow>
      verify_decode_jwt cfg w token = Inl (Lib x)
      \<and> \<not> raises_AuthError (verify_decode_jwt cfg w token))"
  by (simp add: verify_decode_jwt_def jwks_url_def)

theorem key_set_failure_propagates_witness:
  "urlopen down_world (jwks_url ex_cfg) = Inl (OtherException ''URLError'')
 \<and> verify_decode_jwt ex_cfg down_world ''good'' = Inl (Lib (OtherException ''URLError''))
 \<and> urlopen html_world (jwks_url ex_cfg) = Inr ''<html>''
 \<and> json_loads html_world ''<html>'' = Inl (OtherException ''JSONDecodeError'')
 \<and> verify_decode_jwt ex_cfg html_world ''good'' =
     Inl (Lib (OtherException ''JSONDecodeError''))"
  using key_set_failure_propagates[of down_world ex_cfg "''good''"]
    key_set_failure_propagates[of html_world ex_cfg "''good''"]
  by (simp add: down_world_def html_world_def)

subsection \<open>The token extractor\<close>

text \<open>
  Claim C5 says that every present header whose first part is not \<^verbatim>\<open>bearer\<close>, headers
  of whitespace only included, fails with \<^verbatim>\<open>invalid_header\<close> and status 401. The code
  misses the header of whitespace only: for the header that is a single space,
  \<^verbatim>\<open>auth.split()\<close> is empty and \<^verbatim>\<open>parts[0]\<close> raises \<^verbatim>\<open>IndexError\<close>, which is not
  an \<^verbatim>\<open>AuthError\<close>.
\<close>

theorem get_token_auth_header_whitespace_only:
  "get_token_auth_header (ex_request '' '') = Inl IndexError
 \<and> \<not> raises_AuthError (get_token_auth_header (ex_request '' ''))"
  by (simp add: get_token_auth_header_def ex_request_def split_def isspace_def)

text \<open>
  Claim C6. For every present header whose first whitespace-separated part equals
  \<^verbatim>\<open>bearer\<close> without regard to case: with exactly one part the extractor fails with
  \<^verbatim>\<open>invalid_header\<close>, "Token not found.", 401; with more than two parts it fails with
  \<^verbatim>\<open>invalid_header\<close>, 401; with exactly two parts it returns the second part as it is.
\<close>

theorem get_token_auth_header_bearer:
  assumes "Authorization req = Some a" and "split a \<noteq> []"
    and "lower (split a ! 0) = ''bearer''"
  shows "(length (split a) = 1 \<longrightarrow>
            get_token_auth_header req =
              raise_AuthError ''invalid_header'' ''Token not found.'' 401)
       \<and> (length (split a) > 2 \<longrightarrow>
            get_token_auth_header req =
              raise_AuthError ''invalid_header''
                ''Authorization header must be 'Bearer <token>'.'' 401)
       \<and> (length (split a) = 2 \<longrightarrow> get_token_auth_header req = Inr (split a ! 1))"
proof -
  have ne: "a \<noteq> []" using assms(2) by (auto simp: split_def)
  show ?thesis using assms ne
    by (simp add: get_token_auth_header_def Let_def)
qed

theorem get_token_auth_header_bearer_witness:
  "get_token_auth_header \<lparr>Authorization = Some ''Bearer'', get_json = Inr PNone\<rparr> =
       raise_AuthError ''invalid_header'' ''Token not found.'' 401
   \<and> get_token_auth_header \<lparr>Authorization = Some ''bearer a b'', get_json = Inr PNone\<rparr> =
       raise_AuthError ''invalid_header''
         ''Authorization header must be 'Bearer <token>'.'' 401
   \<and> get_token_auth_header
        \<lparr>Authorization = Some ''BEARER  abc.def'', get_json = Inr PNone\<rparr> =
       Inr ''abc.def''"
  using get_token_auth_header_bearer
          [of "\<lparr>Authorization = Some ''Bearer'', get_json = Inr PNone\<rparr>" "''Bearer''"]
        get_token_auth_header_bearer
          [of "\<lparr>Authorization = Some ''bearer a b'', get_json = Inr PNone\<rparr>" "''bearer a b''"]
        get_token_auth_header_bearer
          [of "\<lparr>Authorization = Some ''BEARER  abc.def'', get_json = Inr PNone\<rparr>"
              "''BEARER  abc.def''"]
  by (simp add: ex_splits ex_lowers)

subsection \<open>The permission check\<close>

text \<open>
  Claim C7. For every required permission and every claims dict: without a
  \<^verbatim>\<open>permissions\<close> entry \<^verbatim>\<open>check_permissions\<close> fails with \<^verbatim>\<open>invalid_claims\<close>,
  "Permissions not included in JWT.", 403; when the permission is not in the
  \<^verbatim>\<open>permissions\<close> list it fails with \<^verbatim>\<open>unauthorized\<close>, "Permission not found.", 403;
  otherwise it succeeds. It is a function of its two arguments and touches no state.
\<close>

theorem check_permissions_outcomes:
  "(map_of payload ''permissions'' = None \<longrightarrow>
      check_permissions permission payload =
        raise_AuthError ''invalid_claims'' ''Permissions not included in JWT.'' 403)
 \<and> (\<forall>ps. map_of payload ''permissions'' = Some (PList ps) \<and> PStr permission \<notin> set ps \<longrightarrow>
      check_permissions permission payload =
        raise_AuthError ''unauthorized'' ''Permission not found.'' 403)
 \<and> (\<forall>ps. map_of payload ''permissions'' = Some (PList ps) \<and> PStr permission \<in> set ps \<longrightarrow>
      check_permissions permission payload = Inr True)"
  by (auto simp: check_permissions_def bind_def list_ex_iff py_eq_PStr)

theorem check_permissions_outcomes_witness:
  "check_permissions ''get:actors'' [(''sub'', PStr ''user1'')] =
     raise_AuthError ''invalid_claims'' ''Permissions not included in JWT.'' 403
 \<and> check_permissions ''post:actors'' (ex_payload ''get:actors'') =
     raise_AuthError ''unauthorized'' ''Permission not found.'' 403
 \<and> check_permissions ''get:actors'' (ex_payload ''get:actors'') = Inr True"
  using check_permissions_outcomes[of "[(''sub'', PStr ''user1'')]" "''get:actors''"]
    check_permissions_outcomes[of "ex_payload ''get:actors''" "''post:actors''"]
    check_permissions_outcomes[of "ex_payload ''get:actors''" "''get:actors''"]
  by (simp add: ex_payload_def)

subsection \<open>The decorator\<close>

text \<open>
  Claim C3. Whenever token extraction, token verification or the permission check raises
  an \<^verbatim>\<open>AuthError\<close>, the operation wrapped by \<^verbatim>\<open>requires_auth\<close> is not run (whatever
  the operation, the wrapper's result does not depend on it and the state is the one it
  started from), and the error reaches the boundary as it was raised: the wrapper raises
  that same error, and the handler answers with its description and status code.
\<close>

theorem requires_auth_propagates_AuthError:
  assumes "get_token_auth_header req = Inl (AuthErr e)
     \<or> (\<exists>token. get_token_auth_header req = Inr token
          \<and> (verify_decode_jwt cfg w token = Inl (AuthErr e)
             \<or> (\<exists>payload. verify_decode_jwt cfg w token = Inr payload
                  \<and> check_permissions permission payload = Inl (AuthErr e))))"
  shows "requires_auth permission f cfg w req args s = (Inl (AuthErr e), s)
     \<and> full_dispatch_request (requires_auth permission f cfg w req args s) = (auth_error e, s)
     \<and> auth_error e =
         Response (Json (PDict [(''success'', PBool False),
                                (''error'', PInt (int (status_code e))),
                                (''message'', PStr (description (error e)))]))
                  (status_code e)"
proof -
  have 1: "requires_auth permission f cfg w req args s = (Inl (AuthErr e), s)"
    using assms by (auto simp: requires_auth_def)
  show ?thesis unfolding 1
    by (simp add: full_dispatch_request_def auth_error_def jsonify_def)
qed

theorem requires_auth_propagates_AuthError_witness:
  "requires_auth ''get:actors'' recorder ex_cfg (ex_world (ex_payload ''get:actors''))
      (ex_request ''Basic abc'') ''x'' [] =
     (raise_AuthError ''invalid_header''
        ''Authorization header must start with 'Bearer'.'' 401, [])
 \<and> requires_auth ''get:actors'' recorder ex_cfg (ex_world (ex_payload ''get:actors''))
      (ex_request ''Bearer expired'') ''x'' [] =
     (raise_AuthError ''token_expired'' ''Token is expired.'' 401, [])
 \<and> requires_auth ''post:actors'' recorder ex_cfg (ex_world (ex_payload ''get:actors''))
      (ex_request ''Bearer good'') ''x'' [] =
     (raise_AuthError ''unauthorized'' ''Permission not found.'' 403, [])
 \<and> full_dispatch_request
      (requires_auth ''post:actors'' recorder ex_cfg (ex_world (ex_payload ''get:actors''))
         (ex_request ''Bearer good'') ''x'' []) =
     (Response (Json (PDict [(''success'', PBool False), (''error'', PInt 403),
                             (''message'', PStr ''Permission not found.'')])) 403, [])"
proof -
  let ?w = "ex_world (ex_payload ''get:actors'')"
  have a: "requires_auth ''get:actors'' recorder ex_cfg ?w (ex_request ''Basic abc'') ''x'' [] =
     (raise_AuthError ''invalid_header''
        ''Authorization header must start with 'Bearer'.'' 401, [])"
    using requires_auth_propagates_AuthError
        [where req = "ex_request ''Basic abc''" and permission = "''get:actors''"
        and f = recorder and cfg = ex_cfg and w = ?w and args = "''x''" and s = "[]"
        and e = "\<lparr>error = \<lparr>code = ''invalid_header'',
              description = ''Authorization header must start with 'Bearer'.''\<rparr>,
              status_code = 401\<rparr>"]
    by (simp add: ex_tokens raise_AuthError_def)
  have b: "requires_auth ''get:actors'' recorder ex_cfg ?w (ex_request ''Bearer expired'')
             ''x'' [] =
     (raise_AuthError ''token_expired'' ''Token is expired.'' 401, [])"
    using requires_auth_propagates_AuthError
        [where req = "ex_request ''Bearer expired''" and permission = "''get:actors''"
        and f = recorder and cfg = ex_cfg and w = ?w and args = "''x''" and s = "[]"
        and e = "\<lparr>error = \<lparr>code = ''token_expired'', description = ''Token is expired.''\<rparr>,
              status_code = 401\<rparr>"]
    by (simp add: ex_tokens ex_verify raise_AuthError_def)
  have c: "requires_auth ''post:actors'' recorder ex_cfg ?w (ex_request ''Bearer good'')
             ''x'' [] =
       (raise_AuthError ''unauthorized'' ''Permission not found.'' 403, [])
     \<and> full_dispatch_request
        (requires_auth ''post:actors'' recorder ex_cfg ?w (ex_request ''Bearer good'')
           ''x'' []) =
       (Response (Json (PDict [(''success'', PBool False), (''error'', PInt 403),
                             (''message'', PStr ''Permission not found.'')])) 403, [])"
    using requires_auth_propagates_AuthError
        [where req = "ex_request ''Bearer good''" and permission = "''post:actors''"
        and f = recorder and cfg = ex_cfg and w = ?w and args = "''x''" and s = "[]"
        and e = "\<lparr>error = \<lparr>code = ''unauthorized'',
              description = ''Permission not found.''\<rparr>, status_code = 403\<rparr>"]
    by (auto simp: ex_tokens ex_verify ex_check raise_AuthError_def)
  show ?thesis using a b c by blast
qed

text \<open>
  Claim C4. For a request with a well-formed bearer header whose token verifies to claims
  whose \<^verbatim>\<open>permissions\<close> list contains the required permission, the wrapper is one call
  of the wrapped operation, on the claims followed by the wrapper's own arguments, and
  what the operation returns (its result and the state it leaves) is what the wrapper
  returns.
\<close>

theorem requires_auth_invokes_operation:
  assumes "Authorization req = Some a" and "split a = [b, token]" and "lower b = ''bearer''"
    and "verify_decode_jwt cfg w token = Inr payload"
    and "map_of payload ''permissions'' = Some (PList ps)" and "PStr permission \<in> set ps"
  shows "requires_auth permission f cfg w req args s = f payload args s"
proof -
  have ne: "a \<noteq> []" using assms(2) by (auto simp: split_def)
  have t: "get_token_auth_header req = Inr token"
    using assms(1-3) ne by (simp add: get_token_auth_header_def)
  have c: "check_permissions permission payload = Inr True"
    using assms(5,6) by (auto simp: check_permissions_def bind_def list_ex_iff py_eq_PStr)
  show ?thesis using t c assms(4) by (simp add: requires_auth_def)
qed

theorem requires_auth_invokes_operation_witness:
  "requires_auth ''get:actors'' recorder ex_cfg (ex_world (ex_payload ''get:actors''))
      (ex_request ''Bearer good'') ''x'' [] =
     (Inr (jsonify [(''success'', PBool True), (''args'', PStr ''x'')]),
      [(ex_payload ''get:actors'', ''x'')])"
  using requires_auth_invokes_operation
      [where req = "ex_request ''Bearer good''" and a = "''Bearer good''" and b = "''Bearer''"
      and token = "''good''" and cfg = ex_cfg and w = "ex_world (ex_payload ''get:actors'')"
      and payload = "ex_payload ''get:actors''" and ps = "[PStr ''get:actors'']"
      and permission = "''get:actors''" and f = recorder and args = "''x''" and s = "[]"]
  by (simp add: ex_request_def ex_splits ex_lowers ex_verify ex_payload_def recorder_def)

subsection \<open>The endpoints\<close>

text \<open>
  Claim C8 says that every response of the application is a JSON object with a boolean
  \<^verbatim>\<open>success\<close>, and every failure carries \<^verbatim>\<open>error\<close> and \<^verbatim>\<open>message\<close> as well. The
  code misses the status 400: \<^verbatim>\<open>create_actor\<close> aborts with 400 on an empty body, no
  handler is registered for 400, and the response to \<^verbatim>\<open>POST /actors\<close> with body \<^verbatim>\<open>{}\<close>
  and a valid token is the framework's page, not the envelope.
\<close>

theorem create_actor_bad_request_not_envelope:
  "route_create_actor ex_runtime ex_cfg (ex_world (ex_payload ''post:actors''))
      (ex_request ''Bearer good'') empty_db =
     (Response (Html ''Bad request, no data provided'') 400, empty_db)
 \<and> \<not> is_envelope (Response (Html ''Bad request, no data provided'') 400)"
proof -
  have v: "create_actor ex_runtime (ex_request ''Bearer good'') (ex_payload ''post:actors'')
             () empty_db
      = (Inl (HTTPException 400 ''Bad request, no data provided''), empty_db)"
    by (simp add: create_actor_def ex_request_def)
  show ?thesis
    by (simp add: route_create_actor_def requires_auth_def ex_tokens ex_verify ex_check v
        full_dispatch_request_def)
qed

text \<open>
  Claim C10. For \<^verbatim>\<open>GET /actors\<close> with a valid token whose permissions include
  \<^verbatim>\<open>get:actors\<close>, an actor table without rows gives the 404 failure response
  ("resource not found"), not a success with an empty list; the same for
  \<^verbatim>\<open>GET /movies\<close> with \<^verbatim>\<open>get:movies\<close> and an empty movie table.
\<close>

theorem get_on_empty_table_not_found:
  assumes "get_token_auth_header req = Inr token"
    and "verify_decode_jwt cfg w token = Inr payload"
    and "map_of payload ''permissions'' = Some (PList ps)"
  shows "(PStr ''get:actors'' \<in> set ps \<and> actors s = [] \<longrightarrow>
            route_get_actors cfg w req s =
              (Response (Json (PDict [(''success'', PBool False), (''error'', PInt 404),
                                      (''message'', PStr ''resource not found'')])) 404, s))
       \<and> (PStr ''get:movies'' \<in> set ps \<and> movies s = [] \<longrightarrow>
            route_get_movies rt cfg w req s =
              (Response (Json (PDict [(''success'', PBool False), (''error'', PInt 404),
                                      (''message'', PStr ''resource not found'')])) 404, s))"
  using assms
  by (auto simp: route_get_actors_def route_get_movies_def requires_auth_def
      check_permissions_def bind_def list_ex_iff py_eq_PStr get_actors_def get_movies_def
      full_dispatch_request_def not_found_def jsonify_def)

theorem get_on_empty_table_not_found_witness:
  "route_get_actors ex_cfg (ex_world (ex_payload ''get:actors''))
      (ex_request ''Bearer good'') empty_db =
     (Response (Json (PDict [(''success'', PBool False), (''error'', PInt 404),
                             (''message'', PStr ''resource not found'')])) 404, empty_db)
 \<and> route_get_movies ex_runtime ex_cfg (ex_world (ex_payload ''get:movies''))
      (ex_request ''Bearer good'') empty_db =
     (Response (Json (PDict [(''success'', PBool False), (''error'', PInt 404),
                             (''message'', PStr ''resource not found'')])) 404, empty_db)"
  using get_on_empty_table_not_found
      [where req = "ex_request ''Bearer good''" and token = "''good''" and cfg = ex_cfg
      and w = "ex_world (ex_payload ''get:actors'')" and payload = "ex_payload ''get:actors''"
      and ps = "[PStr ''get:actors'']" and s = empty_db]
    get_on_empty_table_not_found
      [where req = "ex_request ''Bearer good''" and token = "''good''" and cfg = ex_cfg
      and w = "ex_world (ex_payload ''get:movies'')" and payload = "ex_payload ''get:movies''"
      and ps = "[PStr ''get:movies'']" and s = empty_db and rt = ex_runtime]
  by (simp add: ex_tokens ex_verify ex_payload_def empty_db_def)

end
